theory Spec2Isabelle
  imports Complex_Main "HOL-Library.Char_ord" "HOL-Library.List_Lexorder"
begin

section \<open>Data model (models/Code.js and the user documents the routes read)\<close>

text \<open>
  Object ids and dates are opaque to the handlers: they are only compared and stored, so
  both are natural numbers here (every id is a well-formed object id). Strings are lists
  of 8-bit code units.
\<close>

type_synonym objectId = nat
type_synonym date = nat

datatype role = Student | Teacher

datatype status = Submitted | Analyzed | Reviewed | Graded

record analysis =
  result :: string
  analyzedAt :: date

text \<open>\<open>grade\<close> is \<open>None\<close> for JavaScript's \<open>null\<close> (the default of \<open>addFeedback\<close>).\<close>

record feedback =
  teacher :: objectId
  comment :: string
  grade :: "int option"
  feedbackAt :: date

text \<open>
  A document of the \<open>Code\<close> collection. \<open>cid\<close> is its \<open>_id\<close>, \<open>user\<close> the owner's id;
  \<open>description\<close>, \<open>analysis\<close> and \<open>feedback\<close> are \<open>None\<close> while undefined.
\<close>

record code_doc =
  cid :: objectId
  user :: objectId
  title :: string
  description :: "string option"
  language :: string
  code :: string
  analysis :: "analysis option"
  feedback :: "feedback option"
  status :: status
  tags :: "string list"
  createdAt :: date
  updatedAt :: date

text \<open>A document of the \<open>User\<close> collection, with the fields the routes read; \<open>uid\<close> is its \<open>_id\<close>.\<close>

record user_doc =
  uid :: objectId
  username :: string
  email :: string
  password :: string
  role :: role
  lastActive :: date

record db =
  users :: "user_doc list"
  codes :: "code_doc list"

text \<open>
  What a handler sends when it does not answer 200/201: the array of express-validator
  (a list of (path, message) pairs, with status 400), or \<open>res.status(n).json({error: msg})\<close>.
\<close>

datatype error =
    ValidationErrors "(string \<times> string) list"
  | HttpError nat string

section \<open>String helpers of the libraries\<close>

text \<open>
  The whitespace that \<open>trim\<close> removes (express-validator's sanitizer and the schema's
  \<open>trim: true\<close> setter): JavaScript's white space and line terminators, as far as they
  lie in the 8-bit range.
\<close>

definition is_space :: "char \<Rightarrow> bool" where
  "is_space c = (c \<in> set [CHR 0x09, CHR 0x0A, CHR 0x0B, CHR 0x0C, CHR 0x0D, CHR 0x20, CHR 0xA0])"

definition trim :: "string \<Rightarrow> string" where
  "trim s = rev (dropWhile is_space (rev (dropWhile is_space s)))"

text \<open>JavaScript truthiness of a number or null, and of a string or undefined.\<close>

fun truthy_num :: "int option \<Rightarrow> bool" where
  "truthy_num None = False"
| "truthy_num (Some n) = (n \<noteq> 0)"

fun truthy_str :: "string option \<Rightarrow> bool" where
  "truthy_str None = False"
| "truthy_str (Some s) = (s \<noteq> [])"

section \<open>The Code model: schema validation, save, addAnalysis, addFeedback\<close>

definition languages :: "string list" where
  "languages = [''javascript'', ''python'', ''java'', ''cpp'', ''c'']"

text \<open>
  The validators that \<open>codeSchema\<close> declares, run by mongoose on every \<open>save()\<close>:
  required title, code and language (an empty string is not a value), the two maximal
  lengths, the language enum, and the range of \<open>feedback.grade\<close> where one is set.
\<close>

definition schema_valid :: "code_doc \<Rightarrow> bool" where
  "schema_valid d =
     (title d \<noteq> [] \<and> length (title d) \<le> 100
      \<and> (case description d of None \<Rightarrow> True | Some t \<Rightarrow> length t \<le> 500)
      \<and> language d \<in> set languages
      \<and> code d \<noteq> []
      \<and> (case feedback d of None \<Rightarrow> True
          | Some f \<Rightarrow> (case grade f of None \<Rightarrow> True | Some g \<Rightarrow> 0 \<le> g \<and> g \<le> 100)))"

definition findById :: "objectId \<Rightarrow> code_doc list \<Rightarrow> code_doc option" where
  "findById i cs = find (\<lambda>d. cid d = i) cs"

text \<open>
  \<open>doc.save()\<close>: a document that fails validation is rejected (the promise rejects and nothing
  is written); otherwise \<open>updatedAt\<close> is stamped (\<open>timestamps: true\<close>) and the stored document
  with the same \<open>_id\<close> is replaced. The result is the saved document and the new collection.
\<close>

definition save :: "date \<Rightarrow> code_doc \<Rightarrow> code_doc list \<Rightarrow> (code_doc \<times> code_doc list) option" where
  "save now doc cs =
     (if schema_valid doc
      then (let doc' = doc\<lparr>updatedAt := now\<rparr>
            in Some (doc', map (\<lambda>d. if cid d = cid doc' then doc' else d) cs))
      else None)"

definition addAnalysis ::
  "string \<Rightarrow> date \<Rightarrow> code_doc \<Rightarrow> code_doc list \<Rightarrow> (code_doc \<times> code_doc list) option" where
  "addAnalysis analysisResult now this cs =
     save now
       (this\<lparr>analysis := Some \<lparr>result = analysisResult, analyzedAt = now\<rparr>,
             status := Analyzed\<rparr>) cs"

definition addFeedback ::
  "objectId \<Rightarrow> string \<Rightarrow> int option \<Rightarrow> date \<Rightarrow> code_doc \<Rightarrow> code_doc list
     \<Rightarrow> (code_doc \<times> code_doc list) option" where
  "addFeedback teacherId cmt grd now this cs =
     save now
       (this\<lparr>feedback := Some \<lparr>teacher = teacherId, comment = cmt, grade = grd, feedbackAt = now\<rparr>,
             status := (if truthy_num grd then Graded else Reviewed)\<rparr>) cs"

section \<open>routes/admin.js (every route sits behind \<open>protect\<close> and \<open>authorize('teacher')\<close>)\<close>

subsection \<open>POST /codes/:codeId/feedback\<close>

text \<open>
  The two validation chains: the trimmed comment must not be empty; a grade, when the body
  has one, must be an integer from 0 to 100. The body's grade is a JSON number or absent.
\<close>

definition feedbackErrors :: "string \<Rightarrow> int option \<Rightarrow> (string \<times> string) list" where
  "feedbackErrors cmt grd =
     (if trim cmt = [] then [(''comment'', ''Feedback comment is required'')] else [])
     @ (case grd of
          None \<Rightarrow> []
        | Some g \<Rightarrow> if 0 \<le> g \<and> g \<le> 100 then []
                   else [(''grade'', ''Grade must be between 0 and 100'')])"

text \<open>
  The handler answers with the saved document (its two \<open>populate\<close> calls only expand the
  ids of the answer and are left out). A rejected save reaches the \<open>catch\<close>.
\<close>

definition postFeedback ::
  "user_doc \<Rightarrow> objectId \<Rightarrow> string \<Rightarrow> int option \<Rightarrow> date \<Rightarrow> db \<Rightarrow> (error + code_doc) \<times> db" where
  "postFeedback reqUser codeId cmt grd now s =
     (let errors = feedbackErrors cmt grd in
      if errors \<noteq> [] then (Inl (ValidationErrors errors), s)
      else
        (case findById codeId (codes s) of
           None \<Rightarrow> (Inl (HttpError 404 ''Code not found''), s)
         | Some c \<Rightarrow>
             (case addFeedback (uid reqUser) (trim cmt) grd now c (codes s) of
                None \<Rightarrow> (Inl (HttpError 500 ''Server error''), s)
              | Some (c', cs') \<Rightarrow> (Inr c', s\<lparr>codes := cs'\<rparr>))))"

subsection \<open>POST /users\<close>

text \<open>
  \<open>isEmail\<close> and \<open>normalizeEmail\<close> are the validator library's functions and are taken as
  parameters. The username is trimmed and the email normalised before the handler reads them.
\<close>

definition userErrors ::
  "(string \<Rightarrow> bool) \<Rightarrow> string \<Rightarrow> string \<Rightarrow> string \<Rightarrow> (string \<times> string) list" where
  "userErrors isEmail uname mail pw =
     (if length (trim uname) < 3
      then [(''username'', ''Username must be at least 3 characters'')] else [])
     @ (if isEmail mail then [] else [(''email'', ''Valid email is required'')])
     @ (if length pw < 6
        then [(''password'', ''Password must be at least 6 characters'')] else [])"

text \<open>
  \<open>User.findOne(query)\<close> has no sort: it gives \<open>null\<close> when no stored user matches, and
  otherwise one of the matching users, whichever the database comes to first. That choice
  is the parameter \<open>pick\<close>, a position among the matching users (read modulo their number).
\<close>

definition findOne ::
  "(user_doc list \<Rightarrow> nat) \<Rightarrow> (user_doc \<Rightarrow> bool) \<Rightarrow> user_doc list \<Rightarrow> user_doc option" where
  "findOne pick query us =
     (let matching = filter query us in
      if matching = [] then None
      else Some (matching ! (pick matching mod length matching)))"

text \<open>
  \<open>User.create\<close> belongs to the user model, which is not among the sources: it is the
  parameter \<open>userCreate\<close>, giving the new document and the new collection, or \<open>None\<close> when
  it rejects. The answer to a creation is (id, username, email, role).
\<close>

definition createUser ::
  "(string \<Rightarrow> bool) \<Rightarrow> (string \<Rightarrow> string) \<Rightarrow> (user_doc list \<Rightarrow> nat)
     \<Rightarrow> (string \<Rightarrow> string \<Rightarrow> string \<Rightarrow> role \<Rightarrow> user_doc list \<Rightarrow> (user_doc \<times> user_doc list) option)
     \<Rightarrow> string \<Rightarrow> string \<Rightarrow> string \<Rightarrow> db
     \<Rightarrow> (error + objectId \<times> string \<times> string \<times> role) \<times> db" where
  "createUser isEmail normalizeEmail pick userCreate uname mail pw s =
     (let errors = userErrors isEmail uname mail pw in
      if errors \<noteq> [] then (Inl (ValidationErrors errors), s)
      else
        (let username' = trim uname; email' = normalizeEmail mail in
         case findOne pick (\<lambda>u. email u = email' \<or> username u = username') (users s) of
           Some existingUser \<Rightarrow>
             (Inl (HttpError 400
                    (if email existingUser = email' then ''Email already exists''
                     else ''Username already taken'')), s)
         | None \<Rightarrow>
             (case userCreate username' email' pw Student (users s) of
                None \<Rightarrow> (Inl (HttpError 500 ''Server error''), s)
              | Some (u, us') \<Rightarrow>
                  (Inr (uid u, username u, email u, role u), s\<lparr>users := us'\<rparr>))))"

subsection \<open>DELETE /users/:userId\<close>

definition deleteUser :: "objectId \<Rightarrow> db \<Rightarrow> (error + string) \<times> db" where
  "deleteUser userId s =
     (case find (\<lambda>u. uid u = userId) (users s) of
        None \<Rightarrow> (Inl (HttpError 404 ''User not found''), s)
      | Some u \<Rightarrow>
          if role u = Teacher then (Inl (HttpError 403 ''Cannot delete teacher accounts''), s)
          else
            (let s1 = s\<lparr>codes := filter (\<lambda>c. user c \<noteq> uid u) (codes s)\<rparr>;
                 s2 = s1\<lparr>users := filter (\<lambda>v. uid v \<noteq> uid u) (users s1)\<rparr>
             in (Inr ''User and associated data deleted successfully'', s2)))"

subsection \<open>GET /students\<close>

text \<open>
  What \<open>Math.ceil(total / limit)\<close> can be: a number, or \<open>Infinity\<close> or \<open>NaN\<close> when the
  limit is 0. The answer's \<open>total\<close> is the field \<open>total_docs\<close> below.
\<close>

datatype jsnum = Num nat | Infinity | NaN

definition ceil_div :: "nat \<Rightarrow> nat \<Rightarrow> jsnum" where
  "ceil_div n lmt =
     (if lmt = 0 then (if n = 0 then NaN else Infinity)
      else Num ((n + lmt - 1) div lmt))"

text \<open>Insertion sort by an order that is given as a relation.\<close>

fun insert_by :: "('a \<Rightarrow> 'a \<Rightarrow> bool) \<Rightarrow> 'a \<Rightarrow> 'a list \<Rightarrow> 'a list" where
  "insert_by le x [] = [x]"
| "insert_by le x (y # ys) = (if le x y then x # y # ys else y # insert_by le x ys)"

definition sort_by :: "('a \<Rightarrow> 'a \<Rightarrow> bool) \<Rightarrow> 'a list \<Rightarrow> 'a list" where
  "sort_by le xs = foldr (insert_by le) xs []"

text \<open>
  \<open>.sort({ [sortBy]: -1 })\<close> on the user collection. The handler passes the key on as it
  came: the database rejects the empty key, which \<open>?sortBy=\<close> gives, and the \<open>catch\<close> answers
  500. For the fields of a user document the order is the field's; for any other key it
  is the database's reading of the key, the parameter \<open>dbOrder\<close>, \<open>None\<close> when the database
  rejects the key too.
\<close>

definition sortOrder ::
  "(string \<Rightarrow> (user_doc \<Rightarrow> user_doc \<Rightarrow> bool) option) \<Rightarrow> string
     \<Rightarrow> (user_doc \<Rightarrow> user_doc \<Rightarrow> bool) option" where
  "sortOrder dbOrder field =
     (if field = [] then None
      else if field = ''lastActive'' then Some (\<lambda>a b. lastActive a \<le> lastActive b)
      else if field = ''_id'' then Some (\<lambda>a b. uid a \<le> uid b)
      else if field = ''username'' then Some (\<lambda>a b. username a \<le> username b)
      else if field = ''email'' then Some (\<lambda>a b. email a \<le> email b)
      else if field = ''password'' then Some (\<lambda>a b. password a \<le> password b)
      else dbOrder field)"

text \<open>
  Descending: the ascending order reversed. The order among equal keys, which the
  database leaves open, is then the reverse of the stored one.
\<close>

definition sortDesc ::
  "(string \<Rightarrow> (user_doc \<Rightarrow> user_doc \<Rightarrow> bool) option) \<Rightarrow> string \<Rightarrow> user_doc list
     \<Rightarrow> user_doc list option" where
  "sortDesc dbOrder field us =
     (case sortOrder dbOrder field of
        None \<Rightarrow> None
      | Some le \<Rightarrow> Some (rev (sort_by le us)))"

text \<open>\<open>cursor.limit(n)\<close>: a limit of 0 is no limit.\<close>

definition limit_docs :: "nat \<Rightarrow> 'a list \<Rightarrow> 'a list" where
  "limit_docs n xs = (if n = 0 then xs else take n xs)"

record student_view =
  sv_id :: objectId
  sv_username :: string
  sv_email :: string
  sv_role :: role
  sv_lastActive :: date
  submissionCount :: nat
  lastSubmission :: "date option"

record students_page =
  students :: "student_view list"
  totalPages :: jsnum
  currentPage :: nat
  total_docs :: nat

text \<open>The newest \<open>createdAt\<close> among a student's documents, \<open>None\<close> when there is none.\<close>

definition lastCreated :: "code_doc list \<Rightarrow> date option" where
  "lastCreated cs = (case cs of [] \<Rightarrow> None | c # r \<Rightarrow> Some (fold max (map createdAt r) (createdAt c)))"

definition withStats :: "code_doc list \<Rightarrow> user_doc \<Rightarrow> student_view" where
  "withStats cs st =
     (let mine = filter (\<lambda>c. user c = uid st) cs in
      \<lparr>sv_id = uid st, sv_username = username st, sv_email = email st, sv_role = role st,
       sv_lastActive = lastActive st,
       submissionCount = length mine, lastSubmission = lastCreated mine\<rparr>)"

text \<open>
  The query of the listing: students, and when \<open>search\<close> is a non-empty string those whose
  username or email the (case-insensitive) regular expression matches. \<open>regex\<close> is the
  database's reading of a pattern, a parameter: the matcher, or \<open>None\<close> for a pattern that
  is no regular expression, which makes the database reject the query.
\<close>

definition isStudent :: "user_doc \<Rightarrow> bool" where
  "isStudent u = (role u = Student)"

definition studentQuery ::
  "(string \<Rightarrow> (string \<Rightarrow> bool) option) \<Rightarrow> string option \<Rightarrow> (user_doc \<Rightarrow> bool) option" where
  "studentQuery regex search =
     (case search of
        None \<Rightarrow> Some isStudent
      | Some pat \<Rightarrow>
          if pat = [] then Some isStudent
          else (case regex pat of
                  None \<Rightarrow> None
                | Some test \<Rightarrow>
                    Some (\<lambda>u. isStudent u \<and> (test (username u) \<or> test (email u)))))"

text \<open>
  \<open>page\<close> and \<open>limit\<close> are the numbers the query string gives, \<open>None\<close> when absent
  (defaults 1 and 10), meant within the range of 32-bit integers, which reach the database
  as they are; \<open>sortBy\<close> is the string it gives, with default \<open>lastActive\<close> when absent
  only. The database applies sort, skip, limit in this order. Whatever it rejects
  (the search pattern, the sort key, or a negative skip, which page 0 with a positive
  limit asks for) throws, and the \<open>catch\<close> answers 500.
\<close>

definition getStudents ::
  "(string \<Rightarrow> (string \<Rightarrow> bool) option) \<Rightarrow> (string \<Rightarrow> (user_doc \<Rightarrow> user_doc \<Rightarrow> bool) option)
     \<Rightarrow> nat option \<Rightarrow> nat option \<Rightarrow> string option \<Rightarrow> string option
     \<Rightarrow> db \<Rightarrow> error + students_page" where
  "getStudents regex dbOrder page0 limit0 search sortBy0 s =
     (let page = (case page0 of None \<Rightarrow> 1 | Some p \<Rightarrow> p);
          lmt = (case limit0 of None \<Rightarrow> 10 | Some l \<Rightarrow> l);
          sortBy = (case sortBy0 of None \<Rightarrow> ''lastActive'' | Some f \<Rightarrow> f)
      in case studentQuery regex search of
           None \<Rightarrow> Inl (HttpError 500 ''Server error'')
         | Some query \<Rightarrow>
             (let matching = filter query (users s) in
              case sortDesc dbOrder sortBy matching of
                None \<Rightarrow> Inl (HttpError 500 ''Server error'')
              | Some ordered \<Rightarrow>
                  if page = 0 \<and> 0 < lmt then Inl (HttpError 500 ''Server error'')
                  else
                    (let found = limit_docs lmt (drop ((page - 1) * lmt) ordered);
                         tot = length matching
                     in Inr \<lparr>students = map (withStats (codes s)) found,
                             totalPages = ceil_div tot lmt,
                             currentPage = page,
                             total_docs = tot\<rparr>)))"

section \<open>routes/code.js (every route sits behind \<open>protect\<close>, which sets \<open>req.user\<close>)\<close>

text \<open>
  \<open>validateCode\<close>: the trimmed title and the code must not be empty, the language must be
  one of the five. A field the body lacks reads as the empty string.
\<close>

definition validateCode :: "string \<Rightarrow> string \<Rightarrow> string \<Rightarrow> (string \<times> string) list" where
  "validateCode ttl src lang =
     (if trim ttl = [] then [(''title'', ''Title is required'')] else [])
     @ (if src = [] then [(''code'', ''Code is required'')] else [])
     @ (if lang \<in> set languages then [] else [(''language'', ''Invalid language'')])"

subsection \<open>GET /:id\<close>

text \<open>
  \<open>populate('user', ...)\<close> replaces the owner's id by the owner's document, or by \<open>null\<close>
  when no such user is stored; reading \<open>code.user._id\<close> then throws and the \<open>catch\<close>
  answers 500.
\<close>

definition getCode :: "user_doc \<Rightarrow> objectId \<Rightarrow> db \<Rightarrow> error + code_doc" where
  "getCode reqUser i s =
     (case findById i (codes s) of
        None \<Rightarrow> Inl (HttpError 404 ''Code not found'')
      | Some c \<Rightarrow>
          (case find (\<lambda>u. uid u = user c) (users s) of
             None \<Rightarrow> Inl (HttpError 500 ''Server error'')
           | Some owner \<Rightarrow>
               if uid owner \<noteq> uid reqUser \<and> role reqUser \<noteq> Teacher
               then Inl (HttpError 403 ''Not authorized'')
               else Inr c))"

subsection \<open>PUT /:id\<close>

text \<open>
  The body's \<open>description\<close> and \<open>tags\<close> are \<open>None\<close> when absent. \<open>description || code.description\<close>
  keeps the stored value for an absent or empty description; \<open>tags || code.tags\<close> keeps it
  for absent tags only, an array (also the empty one) being truthy. The title arrives
  trimmed by the validation chain, and the schema trims each tag that is set.
\<close>

definition putCode ::
  "user_doc \<Rightarrow> objectId \<Rightarrow> string \<Rightarrow> string option \<Rightarrow> string \<Rightarrow> string \<Rightarrow> string list option
     \<Rightarrow> date \<Rightarrow> db \<Rightarrow> (error + code_doc) \<times> db" where
  "putCode reqUser i ttl descr lang codeContent tgs now s =
     (let errors = validateCode ttl codeContent lang in
      if errors \<noteq> [] then (Inl (ValidationErrors errors), s)
      else
        (case findById i (codes s) of
           None \<Rightarrow> (Inl (HttpError 404 ''Code not found''), s)
         | Some c \<Rightarrow>
             if user c \<noteq> uid reqUser then (Inl (HttpError 403 ''Not authorized''), s)
             else
               (case save now
                       (c\<lparr>title := trim ttl,
                          description := (if truthy_str descr then descr else description c),
                          language := lang,
                          code := codeContent,
                          tags := (case tgs of Some ts \<Rightarrow> map trim ts | None \<Rightarrow> tags c),
                          status := Submitted,
                          analysis := None\<rparr>) (codes s) of
                  None \<Rightarrow> (Inl (HttpError 500 ''Server error''), s)
                | Some (c', cs') \<Rightarrow> (Inr c', s\<lparr>codes := cs'\<rparr>))))"

subsection \<open>DELETE /:id\<close>

definition deleteCode :: "user_doc \<Rightarrow> objectId \<Rightarrow> db \<Rightarrow> (error + string) \<times> db" where
  "deleteCode reqUser i s =
     (case findById i (codes s) of
        None \<Rightarrow> (Inl (HttpError 404 ''Code not found''), s)
      | Some c \<Rightarrow>
          if user c \<noteq> uid reqUser \<and> role reqUser \<noteq> Teacher
          then (Inl (HttpError 403 ''Not authorized''), s)
          else (Inr ''Code deleted successfully'',
                s\<lparr>codes := filter (\<lambda>d. cid d \<noteq> cid c) (codes s)\<rparr>))"

subsection \<open>POST /:id/analyze\<close>

text \<open>
  The call to the AI service either answers with a text or throws an error, whose \<open>code\<close>
  property may be set (\<open>ECONNREFUSED\<close> when the connection is refused). The service is a
  parameter, a function of the language and the source text that make up the prompt.
\<close>

datatype ai_outcome = Reply string | Throws "string option"

definition analyzeCode ::
  "(string \<Rightarrow> string \<Rightarrow> ai_outcome) \<Rightarrow> user_doc \<Rightarrow> objectId \<Rightarrow> date \<Rightarrow> db
     \<Rightarrow> (error + string) \<times> db" where
  "analyzeCode ollama reqUser i now s =
     (case findById i (codes s) of
        None \<Rightarrow> (Inl (HttpError 404 ''Code not found''), s)
      | Some c \<Rightarrow>
          if user c \<noteq> uid reqUser then (Inl (HttpError 403 ''Not authorized''), s)
          else
            (case ollama (language c) (code c) of
               Throws ec \<Rightarrow>
                 if ec = Some ''ECONNREFUSED''
                 then (Inl (HttpError 503
                        ''AI service is not available. Please ensure Ollama is running.''), s)
                 else (Inl (HttpError 500 ''Failed to analyze code''), s)
             | Reply txt \<Rightarrow>
                 (case addAnalysis txt now c (codes s) of
                    None \<Rightarrow> (Inl (HttpError 500 ''Failed to analyze code''), s)
                  | Some (c', cs') \<Rightarrow> (Inr txt, s\<lparr>codes := cs'\<rparr>))))"

section \<open>Sample data for the concrete instances\<close>

definition sample_student :: user_doc where
  "sample_student = \<lparr>uid = 1, username = ''alice'', email = ''alice@example.com'',
     password = ''$2a$10$hashA'', role = Student, lastActive = 4\<rparr>"

definition sample_other :: user_doc where
  "sample_other = \<lparr>uid = 2, username = ''bob'', email = ''bob@example.com'',
     password = ''$2a$10$hashB'', role = Student, lastActive = 3\<rparr>"

definition sample_teacher :: user_doc where
  "sample_teacher = \<lparr>uid = 3, username = ''admin'', email = ''admin@codespace.com'',
     password = ''$2a$10$hashT'', role = Teacher, lastActive = 8\<rparr>"

definition sample_code :: code_doc where
  "sample_code = \<lparr>cid = 10, user = 1, title = ''Sum'', description = Some ''adds two numbers'',
     language = ''python'', code = ''print(1 + 2)'', analysis = None, feedback = None,
     status = Submitted, tags = [''math''], createdAt = 5, updatedAt = 5\<rparr>"

definition sample_graded :: code_doc where
  "sample_graded = \<lparr>cid = 11, user = 1, title = ''Loop'', description = None,
     language = ''javascript'', code = ''for (;;) {}'',
     analysis = Some \<lparr>result = ''never ends'', analyzedAt = 6\<rparr>,
     feedback = Some \<lparr>teacher = 3, comment = ''Good work'', grade = Some 85, feedbackAt = 7\<rparr>,
     status = Graded, tags = [], createdAt = 6, updatedAt = 7\<rparr>"

definition sample_db :: db where
  "sample_db = \<lparr>users = [sample_student, sample_other, sample_teacher],
                 codes = [sample_code, sample_graded]\<rparr>"

text \<open>A service that answers, and one whose connection is refused.\<close>

definition answering_ollama :: "string \<Rightarrow> string \<Rightarrow> ai_outcome" where
  "answering_ollama lang src = Reply ''Looks fine.''"

definition refusing_ollama :: "string \<Rightarrow> string \<Rightarrow> ai_outcome" where
  "refusing_ollama lang src = Throws (Some ''ECONNREFUSED'')"

text \<open>Stand-ins for the library functions that \<open>createUser\<close> and \<open>getStudents\<close> take.\<close>

definition sample_isEmail :: "string \<Rightarrow> bool" where
  "sample_isEmail m = (CHR ''@'' \<in> set m)"

definition sample_normalizeEmail :: "string \<Rightarrow> string" where
  "sample_normalizeEmail m = m"

definition sample_userCreate ::
  "string \<Rightarrow> string \<Rightarrow> string \<Rightarrow> role \<Rightarrow> user_doc list \<Rightarrow> (user_doc \<times> user_doc list) option" where
  "sample_userCreate n e p r us =
     (let u = \<lparr>uid = Suc (fold max (map uid us) 0), username = n, email = e,
                password = ''$2a$10$'' @ p, role = r, lastActive = 0\<rparr>
      in Some (u, us @ [u]))"

text \<open>Two choices of \<open>findOne\<close>: the first match, and the second.\<close>

definition sample_pick :: "user_doc list \<Rightarrow> nat" where
  "sample_pick matching = 0"

definition second_pick :: "user_doc list \<Rightarrow> nat" where
  "second_pick matching = 1"

text \<open>
  A reading of patterns that refuses an open parenthesis and otherwise matches the pattern
  itself, and a reading of sort keys that refuses a leading dollar sign and otherwise
  finds all documents equal.
\<close>

definition sample_regex :: "string \<Rightarrow> (string \<Rightarrow> bool) option" where
  "sample_regex pat = (if CHR ''('' \<in> set pat then None else Some ((=) pat))"

definition all_equal :: "user_doc \<Rightarrow> user_doc \<Rightarrow> bool" where
  "all_equal a b = True"

definition sample_dbOrder :: "string \<Rightarrow> (user_doc \<Rightarrow> user_doc \<Rightarrow> bool) option" where
  "sample_dbOrder field = (if take 1 field = ''$'' then None else Some all_equal)"

text \<open>Fifteen students and a teacher.\<close>

definition sample_class :: db where
  "sample_class =
     \<lparr>users = sample_teacher #
        map (\<lambda>n. \<lparr>uid = 100 + n, username = ''student'', email = ''s@example.com'',
                   password = ''$2a$10$hashS'', role = Student, lastActive = n\<rparr>) [0..<15],
      codes = []\<rparr>"

section \<open>Facts about the store\<close>

lemma save_Some:
  "save now doc cs = Some (d, cs') \<Longrightarrow>
     schema_valid doc \<and> d = doc\<lparr>updatedAt := now\<rparr>
     \<and> cs' = map (\<lambda>x. if cid x = cid doc then d else x) cs"
  by (auto simp: save_def Let_def split: if_splits)

lemma find_replace:
  "find (\<lambda>d. cid d = i) cs = Some c \<Longrightarrow> cid c' = i \<Longrightarrow>
     find (\<lambda>d. cid d = i) (map (\<lambda>x. if cid x = i then c' else x) cs) = Some c'"
  by (induction cs) (auto split: if_splits)

lemma findById_cid: "findById i cs = Some c \<Longrightarrow> cid c = i"
  by (auto simp: findById_def find_Some_iff)

lemmas sample_defs =
  sample_db_def sample_code_def sample_graded_def sample_student_def sample_other_def
  sample_teacher_def

lemmas model_defs =
  findById_def save_def schema_valid_def languages_def trim_def is_space_def Let_def

section \<open>Feedback and the status (C1)\<close>

text \<open>
  What \<open>addFeedback\<close> does to a document that it saves: the feedback is overwritten with
  the teacher, comment, grade and time, and the status follows the truthiness of the grade.
\<close>

lemma addFeedback_Some:
  assumes "addFeedback t cmt g now this cs = Some (d, cs')"
  shows "feedback d = Some \<lparr>teacher = t, comment = cmt, grade = g, feedbackAt = now\<rparr>"
    and "status d = (if truthy_num g then Graded else Reviewed)"
  using assms by (auto simp: addFeedback_def dest!: save_Some)

text \<open>
  C1: feedback with a grade makes the submission \<open>graded\<close>, also for the grade 0. The
  handler accepts the grade 0 and stores it in the feedback, but the submission comes out
  \<open>reviewed\<close>: \<open>grade ? 'graded' : 'reviewed'\<close> takes the number 0 for no grade.
\<close>

theorem postFeedback_grade_zero_reviewed:
  "map_sum id (\<lambda>c. (status c, map_option grade (feedback c)))
     (fst (postFeedback sample_teacher 10 ''Needs work'' (Some 0) 9 sample_db))
   = Inr (Reviewed, Some (Some 0))"
  by (simp add: postFeedback_def feedbackErrors_def addFeedback_def model_defs sample_defs)

section \<open>Analysis and the status (C2)\<close>

lemma addAnalysis_Some:
  assumes "addAnalysis txt now this cs = Some (d, cs')"
  shows "d = this\<lparr>analysis := Some \<lparr>result = txt, analyzedAt = now\<rparr>, status := Analyzed, updatedAt := now\<rparr>"
    and "cs' = map (\<lambda>x. if cid x = cid this then d else x) cs"
  using assms by (auto simp: addAnalysis_def dest!: save_Some)

text \<open>
  A graded submission of the sample store, analysed again by its owner with no edit in
  between: the analysis succeeds and the stored status is \<open>analyzed\<close>, no longer \<open>graded\<close>.
\<close>

theorem analyzeCode_after_feedback_counterexample:
  "status sample_graded = Graded
   \<and> map_option grade (feedback sample_graded) = Some (Some 85)
   \<and> fst (analyzeCode answering_ollama sample_student 11 9 sample_db) = Inr ''Looks fine.''
   \<and> map_option status (findById 11 (codes (snd (analyzeCode answering_ollama sample_student 11 9 sample_db))))
       = Some Analyzed
   \<and> map_option status (findById 11 (codes (snd (analyzeCode answering_ollama sample_student 11 9 sample_db))))
       \<noteq> Some Graded"
  by (simp add: analyzeCode_def addAnalysis_def answering_ollama_def model_defs sample_defs)

text \<open>
  C2, as the code has it: an analysis that completes sets the status of the stored
  submission to \<open>analyzed\<close> whatever it was before (also \<open>reviewed\<close> or \<open>graded\<close>), records
  the result with the time, and keeps the feedback field as it was.
\<close>

theorem analyzeCode_sets_analyzed:
  assumes "findById i (codes s) = Some c"
    and "analyzeCode ollama reqUser i now s = (Inr txt, s')"
  shows "\<exists>c'. findById i (codes s') = Some c' \<and> status c' = Analyzed
           \<and> analysis c' = Some \<lparr>result = txt, analyzedAt = now\<rparr>
           \<and> feedback c' = feedback c"
proof -
  from assms obtain d cs' where own: "user c = uid reqUser"
    and rep: "ollama (language c) (code c) = Reply txt"
    and add: "addAnalysis txt now c (codes s) = Some (d, cs')"
    and s': "s' = s\<lparr>codes := cs'\<rparr>"
    by (auto simp: analyzeCode_def split: if_splits ai_outcome.splits option.splits)
  have i: "cid c = i" using assms(1) by (rule findById_cid)
  have d: "d = c\<lparr>analysis := Some \<lparr>result = txt, analyzedAt = now\<rparr>, status := Analyzed, updatedAt := now\<rparr>"
    and cs': "cs' = map (\<lambda>x. if cid x = cid c then d else x) (codes s)"
    using addAnalysis_Some[OF add] by auto
  have "cid d = i" using d i by simp
  then have "findById i cs' = Some d"
    using assms(1) find_replace[of i "codes s" c d] unfolding findById_def cs' i by simp
  then show ?thesis using d s' by simp
qed

theorem analyzeCode_sets_analyzed_witness:
  "findById 11 (codes sample_db) = Some sample_graded
   \<and> analyzeCode answering_ollama sample_student 11 9 sample_db
       = (Inr ''Looks fine.'', sample_db\<lparr>codes := [sample_code,
            sample_graded\<lparr>analysis := Some \<lparr>result = ''Looks fine.'', analyzedAt = 9\<rparr>,
                           status := Analyzed, updatedAt := 9\<rparr>]\<rparr>)
   \<and> (\<exists>c'. findById 11 [sample_code,
            sample_graded\<lparr>analysis := Some \<lparr>result = ''Looks fine.'', analyzedAt = 9\<rparr>,
                           status := Analyzed, updatedAt := 9\<rparr>] = Some c' \<and> status c' = Analyzed
           \<and> analysis c' = Some \<lparr>result = ''Looks fine.'', analyzedAt = 9\<rparr>
           \<and> feedback c' = feedback sample_graded)"
proof -
  have f: "findById 11 (codes sample_db) = Some sample_graded"
    by (simp add: model_defs sample_defs)
  have a: "analyzeCode answering_ollama sample_student 11 9 sample_db
       = (Inr ''Looks fine.'', sample_db\<lparr>codes := [sample_code,
            sample_graded\<lparr>analysis := Some \<lparr>result = ''Looks fine.'', analyzedAt = 9\<rparr>,
                           status := Analyzed, updatedAt := 9\<rparr>]\<rparr>)"
    by (simp add: analyzeCode_def addAnalysis_def answering_ollama_def model_defs sample_defs)
  show ?thesis using f a analyzeCode_sets_analyzed[OF f a] by simp
qed

section \<open>Duplicate users on creation by a teacher (C3)\<close>

lemma findOne_None: "(findOne pick q us = None) = (filter q us = [])"
  by (simp add: findOne_def Let_def)

lemma findOne_Some:
  assumes "findOne pick q us = Some u"
  shows "u \<in> set us \<and> q u"
proof -
  let ?m = "filter q us"
  from assms have ne: "?m \<noteq> []" and u: "u = ?m ! (pick ?m mod length ?m)"
    by (auto simp: findOne_def Let_def split: if_splits)
  from ne have "pick ?m mod length ?m < length ?m" by simp
  then have "u \<in> set ?m" unfolding u by (rule nth_mem)
  then show ?thesis by simp
qed

text \<open>
  A request whose username and email both belong to one stored user is answered with
  the email's message, not the username's.
\<close>

theorem createUser_both_duplicate_counterexample:
  "username sample_student = trim ''alice''
   \<and> email sample_student = sample_normalizeEmail ''alice@example.com''
   \<and> sample_student \<in> set (users sample_db)
   \<and> fst (createUser sample_isEmail sample_normalizeEmail sample_pick sample_userCreate
            ''alice'' ''alice@example.com'' ''secret1'' sample_db)
       = Inl (HttpError 400 ''Email already exists'')
   \<and> fst (createUser sample_isEmail sample_normalizeEmail sample_pick sample_userCreate
            ''alice'' ''alice@example.com'' ''secret1'' sample_db)
       \<noteq> Inl (HttpError 400 ''Username already taken'')"
  by (simp add: createUser_def findOne_def userErrors_def sample_isEmail_def
        sample_normalizeEmail_def sample_pick_def model_defs sample_defs)

text \<open>
  C3, as the code has it: a valid creation request whose (trimmed) username a stored user
  has is answered 400 with one of the two messages and changes nothing, whichever user
  the lookup returns. The message is \<open>Username already taken\<close> when no stored user has
  the requested email, and \<open>Email already exists\<close> when every stored user with that
  username has the requested email, so when one user holds both.
\<close>

theorem createUser_duplicate_username:
  assumes valid: "userErrors isEmail uname mail pw = []"
    and dup: "trim uname \<in> username ` set (users s)"
  shows "(createUser isEmail normalizeEmail pick userCreate uname mail pw s
            = (Inl (HttpError 400 ''Email already exists''), s)
          \<or> createUser isEmail normalizeEmail pick userCreate uname mail pw s
            = (Inl (HttpError 400 ''Username already taken''), s))
       \<and> (normalizeEmail mail \<notin> email ` set (users s)
            \<longrightarrow> createUser isEmail normalizeEmail pick userCreate uname mail pw s
                  = (Inl (HttpError 400 ''Username already taken''), s))
       \<and> (email ` {u \<in> set (users s). username u = trim uname} \<subseteq> {normalizeEmail mail}
            \<longrightarrow> createUser isEmail normalizeEmail pick userCreate uname mail pw s
                  = (Inl (HttpError 400 ''Email already exists''), s))"
proof -
  let ?q = "\<lambda>u. email u = normalizeEmail mail \<or> username u = trim uname"
  from dup have "filter ?q (users s) \<noteq> []"
    by (auto simp: filter_empty_conv)
  then obtain eu where eu: "findOne pick ?q (users s) = Some eu"
    using findOne_None[of pick ?q "users s"] by (cases "findOne pick ?q (users s)") auto
  from findOne_Some[OF eu] have mem: "eu \<in> set (users s)" and q: "?q eu" by auto
  have res: "createUser isEmail normalizeEmail pick userCreate uname mail pw s
               = (Inl (HttpError 400 (if email eu = normalizeEmail mail then ''Email already exists''
                                      else ''Username already taken'')), s)"
    using valid eu by (simp add: createUser_def Let_def)
  have a: "createUser isEmail normalizeEmail pick userCreate uname mail pw s
            = (Inl (HttpError 400 ''Email already exists''), s)
          \<or> createUser isEmail normalizeEmail pick userCreate uname mail pw s
            = (Inl (HttpError 400 ''Username already taken''), s)"
    using res by simp
  have b: "normalizeEmail mail \<notin> email ` set (users s)
            \<longrightarrow> createUser isEmail normalizeEmail pick userCreate uname mail pw s
                  = (Inl (HttpError 400 ''Username already taken''), s)"
  proof
    assume n: "normalizeEmail mail \<notin> email ` set (users s)"
    have "email eu \<in> email ` set (users s)" using mem by (rule imageI)
    then have "email eu \<noteq> normalizeEmail mail" using n by auto
    then show "createUser isEmail normalizeEmail pick userCreate uname mail pw s
                  = (Inl (HttpError 400 ''Username already taken''), s)"
      using res by simp
  qed
  have c: "email ` {u \<in> set (users s). username u = trim uname} \<subseteq> {normalizeEmail mail}
            \<longrightarrow> createUser isEmail normalizeEmail pick userCreate uname mail pw s
                  = (Inl (HttpError 400 ''Email already exists''), s)"
  proof
    assume sub: "email ` {u \<in> set (users s). username u = trim uname} \<subseteq> {normalizeEmail mail}"
    have "email eu = normalizeEmail mail"
    proof (cases "email eu = normalizeEmail mail")
      case True then show ?thesis .
    next
      case False
      then have "username eu = trim uname" using q by simp
      then have "email eu \<in> email ` {u \<in> set (users s). username u = trim uname}"
        using mem by auto
      then show ?thesis using sub by auto
    qed
    then show "createUser isEmail normalizeEmail pick userCreate uname mail pw s
                  = (Inl (HttpError 400 ''Email already exists''), s)"
      using res by simp
  qed
  show ?thesis using a b c by blast
qed

theorem createUser_duplicate_username_witness:
  "userErrors sample_isEmail ''alice'' ''new@example.com'' ''secret1'' = []
   \<and> trim ''alice'' \<in> username ` set (users sample_db)
   \<and> sample_normalizeEmail ''new@example.com'' \<notin> email ` set (users sample_db)
   \<and> createUser sample_isEmail sample_normalizeEmail sample_pick sample_userCreate
        ''alice'' ''new@example.com'' ''secret1'' sample_db
       = (Inl (HttpError 400 ''Username already taken''), sample_db)
   \<and> userErrors sample_isEmail ''alice'' ''alice@example.com'' ''secret1'' = []
   \<and> email ` {u \<in> set (users sample_db). username u = trim ''alice''}
        \<subseteq> {sample_normalizeEmail ''alice@example.com''}
   \<and> createUser sample_isEmail sample_normalizeEmail second_pick sample_userCreate
        ''alice'' ''alice@example.com'' ''secret1'' sample_db
       = (Inl (HttpError 400 ''Email already exists''), sample_db)"
proof -
  have v1: "userErrors sample_isEmail ''alice'' ''new@example.com'' ''secret1'' = []"
    by (simp add: userErrors_def sample_isEmail_def model_defs)
  have v2: "userErrors sample_isEmail ''alice'' ''alice@example.com'' ''secret1'' = []"
    by (simp add: userErrors_def sample_isEmail_def model_defs)
  have d: "trim ''alice'' \<in> username ` set (users sample_db)"
    by (simp add: model_defs sample_defs)
  have e: "sample_normalizeEmail ''new@example.com'' \<notin> email ` set (users sample_db)"
    by (simp add: sample_normalizeEmail_def sample_defs)
  have sub: "email ` {u \<in> set (users sample_db). username u = trim ''alice''}
        \<subseteq> {sample_normalizeEmail ''alice@example.com''}"
    by (auto simp: sample_normalizeEmail_def model_defs sample_defs)
  show ?thesis
    using v1 v2 d e sub
      createUser_duplicate_username[OF v1 d, of sample_normalizeEmail sample_pick sample_userCreate]
      createUser_duplicate_username[OF v2 d, of sample_normalizeEmail second_pick sample_userCreate]
    by blast
qed

text \<open>
  When the username and the email belong to two different stored users, the message is
  that of the user the lookup returns: the same request on the same store is answered
  either way.
\<close>

lemma createUser_lookup_decides:
  "fst (createUser sample_isEmail sample_normalizeEmail sample_pick sample_userCreate
          ''alice'' ''bob@example.com'' ''secret1'' sample_db)
     = Inl (HttpError 400 ''Username already taken'')
   \<and> fst (createUser sample_isEmail sample_normalizeEmail second_pick sample_userCreate
          ''alice'' ''bob@example.com'' ''secret1'' sample_db)
     = Inl (HttpError 400 ''Email already exists'')"
  by (simp add: createUser_def findOne_def userErrors_def sample_isEmail_def
        sample_normalizeEmail_def sample_pick_def second_pick_def model_defs sample_defs)

section \<open>Edits by the owner (C4)\<close>

lemma putCode_Inr:
  assumes f: "findById i (codes s) = Some c"
    and r: "putCode reqUser i ttl descr lang src tgs now s = (Inr c', s')"
  shows "c' = c\<lparr>title := trim ttl,
                description := (if truthy_str descr then descr else description c),
                language := lang, code := src,
                tags := (case tgs of Some ts \<Rightarrow> map trim ts | None \<Rightarrow> tags c),
                status := Submitted, analysis := None, updatedAt := now\<rparr>"
    and "s' = s\<lparr>codes := map (\<lambda>x. if cid x = i then c' else x) (codes s)\<rparr>"
    and "user c = uid reqUser"
    and "validateCode ttl src lang = []"
  using assms findById_cid[OF f]
  by (auto simp: putCode_def Let_def split: if_splits option.splits dest!: save_Some)

text \<open>
  C4: an edit that succeeds, from any state, leaves the stored submission with status
  \<open>submitted\<close>, no analysis, and the feedback it had.
\<close>

theorem putCode_resets_status:
  assumes f: "findById i (codes s) = Some c"
    and r: "putCode reqUser i ttl descr lang src tgs now s = (Inr c', s')"
  shows "status c' = Submitted \<and> analysis c' = None \<and> feedback c' = feedback c
         \<and> findById i (codes s') = Some c'"
proof -
  note p = putCode_Inr[OF f r]
  have "cid c' = i" using p(1) findById_cid[OF f] by simp
  then have "findById i (codes s') = Some c'"
    using f find_replace[of i "codes s" c c'] p(2) by (simp add: findById_def)
  then show ?thesis using p(1) by simp
qed

theorem putCode_resets_status_witness:
  "findById 11 (codes sample_db) = Some sample_graded
   \<and> status sample_graded = Graded
   \<and> fst (putCode sample_student 11 ''Loop 2'' None ''javascript'' ''while (1) {}'' None 9 sample_db)
       = Inr (sample_graded\<lparr>title := ''Loop 2'', code := ''while (1) {}'', status := Submitted,
                analysis := None, updatedAt := 9\<rparr>)
   \<and> feedback (sample_graded\<lparr>title := ''Loop 2'', code := ''while (1) {}'', status := Submitted,
                analysis := None, updatedAt := 9\<rparr>) = feedback sample_graded"
proof -
  have f: "findById 11 (codes sample_db) = Some sample_graded"
    by (simp add: model_defs sample_defs)
  obtain r s' where rs: "putCode sample_student 11 ''Loop 2'' None ''javascript'' ''while (1) {}'' None 9 sample_db = (r, s')"
    by (cases "putCode sample_student 11 ''Loop 2'' None ''javascript'' ''while (1) {}'' None 9 sample_db")
  have r: "r = Inr (sample_graded\<lparr>title := ''Loop 2'', code := ''while (1) {}'', status := Submitted,
                analysis := None, updatedAt := 9\<rparr>)"
    using rs by (simp add: putCode_def validateCode_def model_defs sample_defs)
  show ?thesis
    using f rs r putCode_resets_status[OF f rs[unfolded r]]
    by (simp add: sample_graded_def)
qed

section \<open>Who may read, update and delete a submission (C5)\<close>

lemma putCode_authorized_iff:
  assumes f: "findById i (codes s) = Some c" and v: "validateCode ttl src lang = []"
  shows "(fst (putCode a i ttl descr lang src tgs now s) = Inl (HttpError 403 ''Not authorized''))
         = (uid a \<noteq> user c)"
  using f v by (auto simp: putCode_def Let_def split: option.splits)

text \<open>
  C5: for a stored submission whose owner is a stored user, reading and deleting are
  granted to the owner and to every teacher and answered 403 for anyone else; an update
  with a valid body is answered 403 exactly when the actor is not the owner, a teacher
  included, and then changes nothing.
\<close>

theorem submission_access_policy:
  assumes f: "findById i (codes s) = Some c"
    and owner: "user c \<in> uid ` set (users s)"
    and v: "validateCode ttl src lang = []"
  shows "getCode a i s = (if uid a = user c \<or> role a = Teacher then Inr c
                          else Inl (HttpError 403 ''Not authorized''))
       \<and> deleteCode a i s =
           (if uid a = user c \<or> role a = Teacher
            then (Inr ''Code deleted successfully'', s\<lparr>codes := filter (\<lambda>d. cid d \<noteq> i) (codes s)\<rparr>)
            else (Inl (HttpError 403 ''Not authorized''), s))
       \<and> (fst (putCode a i ttl descr lang src tgs now s) = Inl (HttpError 403 ''Not authorized''))
           = (uid a \<noteq> user c)
       \<and> (uid a \<noteq> user c \<longrightarrow> snd (putCode a i ttl descr lang src tgs now s) = s)"
proof -
  from owner obtain ow where ow: "find (\<lambda>u. uid u = user c) (users s) = Some ow"
    by (cases "find (\<lambda>u. uid u = user c) (users s)") (auto simp: find_None_iff)
  then have "uid ow = user c" by (auto simp: find_Some_iff)
  then have g: "getCode a i s = (if uid a = user c \<or> role a = Teacher then Inr c
                          else Inl (HttpError 403 ''Not authorized''))"
    using f ow by (auto simp: getCode_def)
  have d: "deleteCode a i s =
           (if uid a = user c \<or> role a = Teacher
            then (Inr ''Code deleted successfully'', s\<lparr>codes := filter (\<lambda>d. cid d \<noteq> i) (codes s)\<rparr>)
            else (Inl (HttpError 403 ''Not authorized''), s))"
    using f findById_cid[OF f] by (auto simp: deleteCode_def)
  have p: "(fst (putCode a i ttl descr lang src tgs now s) = Inl (HttpError 403 ''Not authorized''))
           = (uid a \<noteq> user c)"
    using f v by (rule putCode_authorized_iff)
  have q: "uid a \<noteq> user c \<longrightarrow> snd (putCode a i ttl descr lang src tgs now s) = s"
    using f v by (auto simp: putCode_def Let_def)
  show ?thesis using g d p q by blast
qed

text \<open>The sample store: another student is refused, the teacher reads and deletes but cannot update.\<close>

theorem submission_access_policy_witness:
  "findById 10 (codes sample_db) = Some sample_code
   \<and> user sample_code \<in> uid ` set (users sample_db)
   \<and> validateCode ''Sum'' ''print(3)'' ''python'' = []
   \<and> getCode sample_other 10 sample_db = Inl (HttpError 403 ''Not authorized'')
   \<and> getCode sample_teacher 10 sample_db = Inr sample_code
   \<and> getCode sample_student 10 sample_db = Inr sample_code
   \<and> fst (deleteCode sample_other 10 sample_db) = Inl (HttpError 403 ''Not authorized'')
   \<and> fst (deleteCode sample_teacher 10 sample_db) = Inr ''Code deleted successfully''
   \<and> fst (putCode sample_teacher 10 ''Sum'' None ''python'' ''print(3)'' None 9 sample_db)
       = Inl (HttpError 403 ''Not authorized'')
   \<and> fst (putCode sample_student 10 ''Sum'' None ''python'' ''print(3)'' None 9 sample_db)
       \<noteq> Inl (HttpError 403 ''Not authorized'')"
proof -
  have f: "findById 10 (codes sample_db) = Some sample_code"
    by (simp add: model_defs sample_defs)
  have o: "user sample_code \<in> uid ` set (users sample_db)"
    by (simp add: sample_defs)
  have v: "validateCode ''Sum'' ''print(3)'' ''python'' = []"
    by (simp add: validateCode_def model_defs)
  have ids: "uid sample_other \<noteq> user sample_code" "uid sample_teacher \<noteq> user sample_code"
    "uid sample_student = user sample_code" "role sample_other \<noteq> Teacher" "role sample_teacher = Teacher"
    by (simp_all add: sample_defs)
  show ?thesis
    using f o v ids
      submission_access_policy[OF f o v, of sample_other None None 9]
      submission_access_policy[OF f o v, of sample_teacher None None 9]
      submission_access_policy[OF f o v, of sample_student None None 9]
    by simp
qed

section \<open>A failing AI service (C6)\<close>

text \<open>
  C6: when the call to the AI service throws, the store is what it was, the submission
  included, and the answer is 503 for a refused connection and 500 for any other error.
\<close>

theorem analyzeCode_service_failure:
  assumes f: "findById i (codes s) = Some c"
    and own: "user c = uid reqUser"
    and fail: "ollama (language c) (code c) = Throws ec"
  shows "snd (analyzeCode ollama reqUser i now s) = s
       \<and> findById i (codes (snd (analyzeCode ollama reqUser i now s))) = Some c
       \<and> fst (analyzeCode ollama reqUser i now s) =
           (if ec = Some ''ECONNREFUSED''
            then Inl (HttpError 503 ''AI service is not available. Please ensure Ollama is running.'')
            else Inl (HttpError 500 ''Failed to analyze code''))"
  using assms by (simp add: analyzeCode_def)

theorem analyzeCode_service_failure_witness:
  "findById 10 (codes sample_db) = Some sample_code
   \<and> user sample_code = uid sample_student
   \<and> refusing_ollama (language sample_code) (code sample_code) = Throws (Some ''ECONNREFUSED'')
   \<and> snd (analyzeCode refusing_ollama sample_student 10 9 sample_db) = sample_db
   \<and> status sample_code = Submitted \<and> analysis sample_code = None
   \<and> fst (analyzeCode refusing_ollama sample_student 10 9 sample_db)
       = Inl (HttpError 503 ''AI service is not available. Please ensure Ollama is running.'')"
proof -
  have f: "findById 10 (codes sample_db) = Some sample_code"
    by (simp add: model_defs sample_defs)
  have o: "user sample_code = uid sample_student"
    by (simp add: sample_defs)
  have t: "refusing_ollama (language sample_code) (code sample_code) = Throws (Some ''ECONNREFUSED'')"
    by (simp add: refusing_ollama_def)
  show ?thesis
    using f o t
      analyzeCode_service_failure[where ollama = refusing_ollama and reqUser = sample_student
        and i = 10 and s = sample_db and c = sample_code and ec = "Some ''ECONNREFUSED''"
        and now = 9]
    by (simp add: sample_code_def)
qed

section \<open>Validation of the grade (C7)\<close>

text \<open>
  C7: a grade below 0 or above 100 is answered with the list of validation errors, which
  has the grade's entry, and the store is unchanged; feedback with a comment and no grade
  on a stored (valid) submission is accepted and leaves it \<open>reviewed\<close>.
\<close>

theorem postFeedback_grade_validation:
  shows "(g < 0 \<or> 100 < g \<longrightarrow>
            postFeedback reqUser i cmt (Some g) now s
              = (Inl (ValidationErrors (feedbackErrors cmt (Some g))), s)
            \<and> (''grade'', ''Grade must be between 0 and 100'') \<in> set (feedbackErrors cmt (Some g)))
       \<and> (trim cmt \<noteq> [] \<and> findById i (codes s) = Some c \<and> schema_valid c \<longrightarrow>
            (\<exists>c' s'. postFeedback reqUser i cmt None now s = (Inr c', s')
               \<and> findById i (codes s') = Some c'
               \<and> status c' = Reviewed
               \<and> feedback c' = Some \<lparr>teacher = uid reqUser, comment = trim cmt, grade = None,
                                       feedbackAt = now\<rparr>))"
proof (intro conjI impI)
  assume "g < 0 \<or> 100 < g"
  then have e: "(''grade'', ''Grade must be between 0 and 100'') \<in> set (feedbackErrors cmt (Some g))"
    by (auto simp: feedbackErrors_def)
  then have "feedbackErrors cmt (Some g) \<noteq> []" by auto
  then show "postFeedback reqUser i cmt (Some g) now s
              = (Inl (ValidationErrors (feedbackErrors cmt (Some g))), s)"
    by (simp add: postFeedback_def Let_def)
  show "(''grade'', ''Grade must be between 0 and 100'') \<in> set (feedbackErrors cmt (Some g))"
    by (rule e)
next
  assume a: "trim cmt \<noteq> [] \<and> findById i (codes s) = Some c \<and> schema_valid c"
  define d where "d = c\<lparr>feedback := Some \<lparr>teacher = uid reqUser, comment = trim cmt,
      grade = None, feedbackAt = now\<rparr>, status := Reviewed, updatedAt := now\<rparr>"
  have i: "cid c = i" using a findById_cid by blast
  have sv: "schema_valid (c\<lparr>feedback := Some \<lparr>teacher = uid reqUser, comment = trim cmt,
      grade = None, feedbackAt = now\<rparr>, status := Reviewed\<rparr>)"
    using a by (simp add: schema_valid_def)
  have add: "addFeedback (uid reqUser) (trim cmt) None now c (codes s)
      = Some (d, map (\<lambda>x. if cid x = i then d else x) (codes s))"
    using sv i by (simp add: addFeedback_def save_def Let_def d_def)
  have r: "postFeedback reqUser i cmt None now s
      = (Inr d, s\<lparr>codes := map (\<lambda>x. if cid x = i then d else x) (codes s)\<rparr>)"
    using a add by (simp add: postFeedback_def feedbackErrors_def Let_def)
  have "cid d = i" using i by (simp add: d_def)
  then have fd: "findById i (map (\<lambda>x. if cid x = i then d else x) (codes s)) = Some d"
    using a find_replace[of i "codes s" c d] by (simp add: findById_def)
  show "\<exists>c' s'. postFeedback reqUser i cmt None now s = (Inr c', s')
               \<and> findById i (codes s') = Some c'
               \<and> status c' = Reviewed
               \<and> feedback c' = Some \<lparr>teacher = uid reqUser, comment = trim cmt, grade = None,
                                       feedbackAt = now\<rparr>"
    using r fd by (simp add: d_def)
qed

theorem postFeedback_grade_validation_witness:
  "((150::int) < 0 \<or> 100 < (150::int))
   \<and> postFeedback sample_teacher 10 ''Good work'' (Some 150) 9 sample_db
       = (Inl (ValidationErrors [(''grade'', ''Grade must be between 0 and 100'')]), sample_db)
   \<and> trim ''Good work'' \<noteq> [] \<and> findById 10 (codes sample_db) = Some sample_code
   \<and> schema_valid sample_code
   \<and> map_sum id status (fst (postFeedback sample_teacher 10 ''Good work'' None 9 sample_db))
       = Inr Reviewed"
proof -
  have g: "(150::int) < 0 \<or> 100 < (150::int)" by simp
  have e: "feedbackErrors ''Good work'' (Some 150) = [(''grade'', ''Grade must be between 0 and 100'')]"
    by (simp add: feedbackErrors_def model_defs)
  have a: "trim ''Good work'' \<noteq> [] \<and> findById 10 (codes sample_db) = Some sample_code
     \<and> schema_valid sample_code"
    by (simp add: model_defs sample_defs)
  show ?thesis
    using g e a
      postFeedback_grade_validation[of 150 sample_teacher 10 "''Good work''" 9 sample_db sample_code]
    by auto
qed

section \<open>Deleting a user (C8)\<close>

text \<open>
  C8: a teacher account is not deleted (403, nothing changes); deleting a student
  removes the user and every submission of that user, and nothing else.
\<close>

theorem deleteUser_policy:
  assumes f: "find (\<lambda>u. uid u = userId) (users s) = Some u"
  shows "(role u = Teacher \<longrightarrow>
            deleteUser userId s = (Inl (HttpError 403 ''Cannot delete teacher accounts''), s))
       \<and> (role u = Student \<longrightarrow>
            deleteUser userId s
              = (Inr ''User and associated data deleted successfully'',
                 \<lparr>users = filter (\<lambda>v. uid v \<noteq> userId) (users s),
                  codes = filter (\<lambda>c. user c \<noteq> userId) (codes s)\<rparr>)
            \<and> userId \<notin> uid ` set (users (snd (deleteUser userId s)))
            \<and> userId \<notin> user ` set (codes (snd (deleteUser userId s))))"
proof -
  have i: "uid u = userId" using f by (auto simp: find_Some_iff)
  show ?thesis using f i by (auto simp: deleteUser_def Let_def)
qed

theorem deleteUser_policy_witness:
  "find (\<lambda>u. uid u = 1) (users sample_db) = Some sample_student
   \<and> role sample_student = Student
   \<and> deleteUser 1 sample_db
       = (Inr ''User and associated data deleted successfully'',
          \<lparr>users = [sample_other, sample_teacher], codes = []\<rparr>)
   \<and> find (\<lambda>u. uid u = 3) (users sample_db) = Some sample_teacher
   \<and> role sample_teacher = Teacher
   \<and> deleteUser 3 sample_db = (Inl (HttpError 403 ''Cannot delete teacher accounts''), sample_db)"
proof -
  have f1: "find (\<lambda>u. uid u = 1) (users sample_db) = Some sample_student"
    by (simp add: sample_defs)
  have f3: "find (\<lambda>u. uid u = 3) (users sample_db) = Some sample_teacher"
    by (simp add: sample_defs)
  have r: "role sample_student = Student" "role sample_teacher = Teacher"
    by (simp_all add: sample_defs)
  have flt: "filter (\<lambda>v. uid v \<noteq> 1) (users sample_db) = [sample_other, sample_teacher]"
    "filter (\<lambda>c. user c \<noteq> 1) (codes sample_db) = []"
    by (simp_all add: sample_defs)
  show ?thesis
    using f1 f3 r flt deleteUser_policy[OF f1] deleteUser_policy[OF f3]
    by simp
qed

section \<open>Pages of the student listing (C9)\<close>

text \<open>The integer formula of \<open>ceil_div\<close> is the ceiling of the quotient.\<close>

lemma div_mult_add_less:
  fixes l k m :: nat
  assumes "m < l"
  shows "(l * k + m) div l = k"
proof -
  have "l \<noteq> 0" using assms by simp
  then have "(l * k + m) div l = k + m div l" by (rule div_mult_self4)
  then show ?thesis using assms by simp
qed

lemma nat_ceil_div:
  fixes n l :: nat
  assumes "0 < l"
  shows "(n + l - 1) div l = (if n mod l = 0 then n div l else n div l + 1)"
proof (cases "n mod l = 0")
  case True
  then have "l dvd n" by (simp add: mod_eq_0_iff_dvd)
  then obtain k where k: "n = l * k" by (rule dvdE)
  have "l - 1 < l" using assms by simp
  then have "(l * k + (l - 1)) div l = k" by (rule div_mult_add_less)
  moreover have "n + l - 1 = l * k + (l - 1)" using assms k by simp
  moreover have "n div l = k" using k assms by simp
  ultimately show ?thesis using True by simp
next
  case False
  define k where "k = n div l"
  define m where "m = n mod l"
  have n: "n = l * k + m" by (simp add: k_def m_def)
  have m: "0 < m" "m < l" using False assms by (simp_all add: m_def)
  have "n + l - 1 = l * (k + 1) + (m - 1)" using n m by (simp add: algebra_simps)
  moreover have "(l * (k + 1) + (m - 1)) div l = k + 1"
    using m by (intro div_mult_add_less) simp
  ultimately show ?thesis using False by (simp add: k_def)
qed

lemma real_ceil_div:
  fixes n l :: nat
  assumes "0 < l"
  shows "nat \<lceil>real n / real l\<rceil> = (if n mod l = 0 then n div l else n div l + 1)"
proof -
  have a: "int n div int l = int (n div l)" by (simp add: zdiv_int)
  have "int n mod int l = int (n mod l)" by (simp add: zmod_int)
  then have b: "(int n mod int l = 0) = (n mod l = 0)" by simp
  have "\<lceil>real n / real l\<rceil> = \<lceil>real_of_int (int n) / real_of_int (int l)\<rceil>" by simp
  also have "\<dots> = - ((- int n) div int l)"
    by (simp only: ceiling_divide_eq_div)
  also have "\<dots> = (if int n mod int l = 0 then int n div int l else int n div int l + 1)"
    using assms by (simp add: zdiv_zminus1_eq_if)
  also have "\<dots> = (if n mod l = 0 then int (n div l) else int (n div l) + 1)"
    by (simp only: a b)
  finally have "\<lceil>real n / real l\<rceil> = (if n mod l = 0 then int (n div l) else int (n div l) + 1)" .
  then show ?thesis by (simp split: if_splits)
qed

lemma ceil_div_ceiling:
  assumes "0 < l"
  shows "ceil_div n l = Num (nat \<lceil>real n / real l\<rceil>)"
  using assms nat_ceil_div[OF assms, of n] real_ceil_div[OF assms, of n]
  by (simp add: ceil_div_def)

text \<open>Sorting keeps every document.\<close>

lemma length_insert_by: "length (insert_by le x xs) = Suc (length xs)"
  by (induction xs) simp_all

lemma length_sort_by: "length (sort_by le xs) = length xs"
  by (induction xs) (simp_all add: sort_by_def length_insert_by)

lemma sortDesc_Some:
  "sortDesc dbOrder field us = Some ordered \<Longrightarrow> length ordered = length us"
  by (auto simp: sortDesc_def length_sort_by split: option.splits)

text \<open>The rejected requests: an empty sort key, and a pattern the database cannot read.\<close>

lemma getStudents_empty_sort_key:
  "getStudents regex dbOrder page0 limit0 search (Some []) s = Inl (HttpError 500 ''Server error'')"
  by (simp add: getStudents_def sortDesc_def sortOrder_def Let_def split: option.splits)

lemma getStudents_bad_pattern:
  "pat \<noteq> [] \<Longrightarrow> regex pat = None \<Longrightarrow>
     getStudents regex dbOrder page0 limit0 (Some pat) sortBy0 s = Inl (HttpError 500 ''Server error'')"
  by (simp add: getStudents_def studentQuery_def Let_def)

text \<open>
  C9: for a page number and a page size of at least 1 (size and offset within 32 bits),
  and a request that the database accepts (a search pattern it can read, if any, and a
  sort key it takes), the listing
  answers with min(limit, total - (page - 1) * limit) students (none once the pages are
  exhausted, the difference being cut at 0), with ceil(total / limit) as the number of
  pages, and with the total, where total counts the students that match the query.
\<close>

theorem getStudents_pagination:
  assumes p: "1 \<le> p" and l: "1 \<le> l"
    and range: "l < 2 ^ 31" "(p - 1) * l < 2 ^ 31"
    and q: "studentQuery regex search = Some query"
    and k: "sortOrder dbOrder (case sortBy of None \<Rightarrow> ''lastActive'' | Some f \<Rightarrow> f) \<noteq> None"
  shows "\<exists>r. getStudents regex dbOrder (Some p) (Some l) search sortBy s = Inr r
           \<and> length (students r) = min l (length (filter query (users s)) - (p - 1) * l)
           \<and> totalPages r = Num (nat \<lceil>real (length (filter query (users s))) / real l\<rceil>)
           \<and> total_docs r = length (filter query (users s))
           \<and> currentPage r = p"
proof -
  define matching where "matching = filter query (users s)"
  define key where "key = (case sortBy of None \<Rightarrow> ''lastActive'' | Some f \<Rightarrow> f)"
  from k obtain le where le: "sortOrder dbOrder key = Some le"
    unfolding key_def by auto
  define ordered where "ordered = rev (sort_by le matching)"
  have so: "sortDesc dbOrder key matching = Some ordered"
    using le by (simp add: sortDesc_def ordered_def)
  have lo: "length ordered = length matching"
    using so by (rule sortDesc_Some)
  define r where "r = \<lparr>students = map (withStats (codes s)) (take l (drop ((p - 1) * l) ordered)),
      totalPages = ceil_div (length matching) l, currentPage = p, total_docs = length matching\<rparr>"
  have l0: "0 < l" using l by simp
  have g: "getStudents regex dbOrder (Some p) (Some l) search sortBy s = Inr r"
    using p l0 q so
    by (simp add: getStudents_def Let_def limit_docs_def r_def matching_def key_def)
  have len: "length (students r) = min l (length matching - (p - 1) * l)"
    by (simp add: r_def lo min.commute)
  have tp: "totalPages r = Num (nat \<lceil>real (length matching) / real l\<rceil>)"
    using ceil_div_ceiling[OF l0] by (simp add: r_def)
  have rest: "total_docs r = length matching" "currentPage r = p"
    by (simp_all add: r_def)
  show ?thesis using g len tp rest unfolding matching_def by blast
qed

text \<open>
  Fifteen students, page 1 of size 5: five students, three pages. With a search that all
  of them match, sorted by username, page 2 of size 10: five students, two pages.
\<close>

lemma sample_class_students:
  "filter isStudent (users sample_class) = tl (users sample_class)"
  by (simp add: sample_class_def isStudent_def sample_teacher_def)

lemma sample_class_size: "length (tl (users sample_class)) = 15"
  by (simp add: sample_class_def)

lemma sample_class_named:
  "filter (\<lambda>u. isStudent u \<and> (''student'' = username u \<or> ''student'' = email u))
     (users sample_class) = tl (users sample_class)"
  by (simp add: sample_class_def isStudent_def sample_teacher_def)

theorem getStudents_pagination_witness:
  "(1::nat) \<le> 1 \<and> (1::nat) \<le> 5 \<and> (5::nat) < 2 ^ 31 \<and> ((1::nat) - 1) * 5 < 2 ^ 31
   \<and> studentQuery sample_regex None = Some isStudent
   \<and> sortOrder sample_dbOrder ''lastActive'' \<noteq> None
   \<and> length (filter isStudent (users sample_class)) = 15
   \<and> map_sum id (\<lambda>r. (length (students r), totalPages r, total_docs r))
        (getStudents sample_regex sample_dbOrder (Some 1) (Some 5) None None sample_class)
       = Inr (5, Num 3, 15)
   \<and> (1::nat) \<le> 2 \<and> (1::nat) \<le> 10 \<and> (10::nat) < 2 ^ 31 \<and> ((2::nat) - 1) * 10 < 2 ^ 31
   \<and> studentQuery sample_regex (Some ''student'')
       = Some (\<lambda>u. isStudent u \<and> (''student'' = username u \<or> ''student'' = email u))
   \<and> sortOrder sample_dbOrder ''username'' \<noteq> None
   \<and> map_sum id (\<lambda>r. (length (students r), totalPages r, total_docs r))
        (getStudents sample_regex sample_dbOrder (Some 2) (Some 10) (Some ''student'')
           (Some ''username'') sample_class)
       = Inr (5, Num 2, 15)"
proof -
  let ?named = "\<lambda>u. isStudent u \<and> (''student'' = username u \<or> ''student'' = email u)"
  have n1: "length (filter isStudent (users sample_class)) = 15"
    by (simp only: sample_class_students sample_class_size)
  have n2: "length (filter ?named (users sample_class)) = 15"
    by (simp only: sample_class_named sample_class_size)
  have c: "nat \<lceil>real 15 / real 5\<rceil> = 3" "nat \<lceil>real 15 / real 10\<rceil> = 2" by simp_all
  have h1: "(1::nat) \<le> 1" "(1::nat) \<le> 5" "(5::nat) < 2 ^ 31" "((1::nat) - 1) * 5 < 2 ^ 31"
    by simp_all
  have h2: "(1::nat) \<le> 2" "(1::nat) \<le> 10" "(10::nat) < 2 ^ 31" "((2::nat) - 1) * 10 < 2 ^ 31"
    by simp_all
  have q1: "studentQuery sample_regex None = Some isStudent"
    by (simp add: studentQuery_def)
  have q2: "studentQuery sample_regex (Some ''student'') = Some ?named"
    by (simp add: studentQuery_def sample_regex_def)
  have k1: "sortOrder sample_dbOrder (case None of None \<Rightarrow> ''lastActive'' | Some f \<Rightarrow> f) \<noteq> None"
    by (simp add: sortOrder_def)
  have k2: "sortOrder sample_dbOrder (case Some ''username'' of None \<Rightarrow> ''lastActive'' | Some f \<Rightarrow> f)
      \<noteq> None"
    by (simp add: sortOrder_def)
  obtain r1 where r1:
    "getStudents sample_regex sample_dbOrder (Some 1) (Some 5) None None sample_class = Inr r1"
    "length (students r1) = min 5 (length (filter isStudent (users sample_class)) - (1 - 1) * 5)"
    "totalPages r1 = Num (nat \<lceil>real (length (filter isStudent (users sample_class))) / real 5\<rceil>)"
    "total_docs r1 = length (filter isStudent (users sample_class))"
    using getStudents_pagination[OF h1 q1 k1, of sample_class] by blast
  obtain r2 where r2:
    "getStudents sample_regex sample_dbOrder (Some 2) (Some 10) (Some ''student'')
       (Some ''username'') sample_class = Inr r2"
    "length (students r2) = min 10 (length (filter ?named (users sample_class)) - (2 - 1) * 10)"
    "totalPages r2 = Num (nat \<lceil>real (length (filter ?named (users sample_class))) / real 10\<rceil>)"
    "total_docs r2 = length (filter ?named (users sample_class))"
    using getStudents_pagination[OF h2 q2 k2, of sample_class] by blast
  have k: "sortOrder sample_dbOrder ''lastActive'' \<noteq> None"
    "sortOrder sample_dbOrder ''username'' \<noteq> None"
    by (simp_all add: sortOrder_def)
  show ?thesis using r1 r2 c q1 q2 k h1 h2 unfolding n1 n2 by simp
qed

section \<open>Which fields an update replaces (C10)\<close>

text \<open>An update that sends an empty array of tags clears the tags that were stored.\<close>

theorem putCode_empty_tags_counterexample:
  "tags sample_code = [''math'']
   \<and> map_sum id tags
        (fst (putCode sample_student 10 ''Sum'' None ''python'' ''print(1 + 2)'' (Some []) 9 sample_db))
       = Inr []
   \<and> map_sum id tags
        (fst (putCode sample_student 10 ''Sum'' None ''python'' ''print(1 + 2)'' (Some []) 9 sample_db))
       \<noteq> Inr (tags sample_code)"
  by (simp add: putCode_def validateCode_def model_defs sample_defs)

text \<open>
  C10, as the code has it: an update that succeeds keeps the stored description when the
  request has none or an empty one, and keeps the stored tags when the request has none;
  tags that are sent, also an empty array, replace the stored ones (each tag trimmed);
  the title (trimmed), the language and the code are replaced by what was sent.
\<close>

theorem putCode_fields:
  assumes f: "findById i (codes s) = Some c"
    and r: "putCode reqUser i ttl descr lang src tgs now s = (Inr c', s')"
  shows "title c' = trim ttl \<and> language c' = lang \<and> code c' = src
       \<and> description c' = (if descr = None \<or> descr = Some [] then description c else descr)
       \<and> tags c' = (case tgs of None \<Rightarrow> tags c | Some ts \<Rightarrow> map trim ts)"
proof -
  have "truthy_str descr = (\<not> (descr = None \<or> descr = Some []))"
    by (cases descr) simp_all
  then show ?thesis using putCode_Inr(1)[OF f r] by (simp split: option.splits)
qed

theorem putCode_fields_witness:
  "findById 10 (codes sample_db) = Some sample_code
   \<and> fst (putCode sample_student 10 ''  Sum of three '' (Some []) ''python'' ''print(1 + 2 + 3)''
            None 9 sample_db)
       = Inr (sample_code\<lparr>title := ''Sum of three'', code := ''print(1 + 2 + 3)'', updatedAt := 9\<rparr>)
   \<and> description (sample_code\<lparr>title := ''Sum of three'', code := ''print(1 + 2 + 3)'', updatedAt := 9\<rparr>)
       = description sample_code
   \<and> tags (sample_code\<lparr>title := ''Sum of three'', code := ''print(1 + 2 + 3)'', updatedAt := 9\<rparr>)
       = tags sample_code"
proof -
  have f: "findById 10 (codes sample_db) = Some sample_code"
    by (simp add: model_defs sample_defs)
  obtain r s' where rs: "putCode sample_student 10 ''  Sum of three '' (Some []) ''python''
      ''print(1 + 2 + 3)'' None 9 sample_db = (r, s')"
    by (cases "putCode sample_student 10 ''  Sum of three '' (Some []) ''python''
      ''print(1 + 2 + 3)'' None 9 sample_db")
  have r: "r = Inr (sample_code\<lparr>title := ''Sum of three'', code := ''print(1 + 2 + 3)'', updatedAt := 9\<rparr>)"
    using rs by (simp add: putCode_def validateCode_def model_defs sample_defs)
  show ?thesis
    using f rs r putCode_fields[OF f rs[unfolded r]]
    by (simp add: sample_code_def)
qed

end
